theory Spec2Isabelle
  imports Main "HOL-Library.Word"
begin

section \<open>The example program: examples/controller-concurrency-handling-example/main.go\<close>

subsection \<open>Go values\<close>

text \<open>
  Go's \<open>int\<close> is the 64-bit signed machine integer of the usual targets; comparisons read
  it as two's complement (\<open>sint\<close>). \<open>time.Duration\<close> is an \<open>int64\<close> of nanoseconds, and
  its multiplication wraps around.
\<close>

type_synonym go_int = "64 word"
type_synonym duration = "64 word"

text \<open>
  A Go \<open>error\<close> value: either an error of some library, or the result of
  \<open>fmt.Errorf("...: %w", err)\<close>, which keeps the wrapped error.
\<close>

datatype go_error = Err string | Errorf string go_error

definition time_Millisecond :: duration where
  "time_Millisecond = 1000000"

definition time_Second :: duration where
  "time_Second = 1000000000"

subsection \<open>Flags\<close>

text \<open>
  The four package-level variables written by \<open>initFlags\<close>.
\<close>

record flags =
  concurrentWorkers :: go_int
  sleepMS :: go_int
  intervalS :: go_int
  retries :: go_int

text \<open>
  What \<open>fg.Parse(os.Args[1:])\<close> found on the command line: for each registered flag the
  value given, if any. The flag package itself is a library; its outcome is an input of
  the model (\<open>Inl\<close> is the error it returns).
\<close>

record parsed_args =
  arg_concurrency :: "go_int option"
  arg_sleep_ms :: "go_int option"
  arg_interval_s :: "go_int option"
  arg_retries :: "go_int option"

text \<open>\<open>fg.IntVar(&v, name, dflt, usage)\<close>: the variable holds the default unless the flag is given.\<close>

definition IntVar :: "go_int \<Rightarrow> go_int option \<Rightarrow> go_int" where
  "IntVar dflt given = (case given of None \<Rightarrow> dflt | Some v \<Rightarrow> v)"

definition initFlags :: "go_error + parsed_args \<Rightarrow> go_error + flags" where
  "initFlags parse =
     (case parse of
        Inl err \<Rightarrow> Inl err
      | Inr a \<Rightarrow>
          (let cw = IntVar 3 (arg_concurrency a);
               ms = IntVar 25 (arg_sleep_ms a);
               iv = IntVar 300 (arg_interval_s a);
               rt = IntVar 3 (arg_retries a);
               cw = (if cw <s 1 then 1 else cw);
               ms = (if ms <s 1 then 25 else ms);
               iv = (if iv <s 1 then 300 else iv);
               rt = (if rt <s 0 then 0 else rt)
           in Inr \<lparr>concurrentWorkers = cw, sleepMS = ms, intervalS = iv, retries = rt\<rparr>))"

subsection \<open>The handler and the retriever of the example\<close>

text \<open>
  A \<open>runtime.Object\<close> is an interface value; the example only ever looks for a
  \<open>*corev1.Pod\<close> in it.
\<close>

record pod =
  Namespace :: string
  Name :: string

datatype object = PodObject pod | OtherObject string

text \<open>
  What one call of a handler function did: how long it slept, the line it logged and the
  error it returned (\<open>None\<close> is Go's \<open>nil\<close>). The type assertion \<open>obj.(*corev1.Pod)\<close>
  panics on any other object.
\<close>

record effect =
  slept :: duration
  logged :: string
  returned :: "go_error option"

datatype handler_call = Panicked | Finished effect

record HandlerFunc =
  AddFunc :: "object \<Rightarrow> handler_call"
  DeleteFunc :: "string \<Rightarrow> handler_call"

definition sleep :: "flags \<Rightarrow> duration" where
  "sleep fl = sleepMS fl * time_Millisecond"

definition hand_AddFunc :: "flags \<Rightarrow> object \<Rightarrow> handler_call" where
  "hand_AddFunc fl obj =
     (case obj of
        PodObject p \<Rightarrow>
          Finished \<lparr>slept = sleep fl,
                    logged = ''Pod added: '' @ Namespace p @ ''/'' @ Name p,
                    returned = None\<rparr>
      | OtherObject _ \<Rightarrow> Panicked)"

definition hand_DeleteFunc :: "flags \<Rightarrow> string \<Rightarrow> handler_call" where
  "hand_DeleteFunc fl s =
     Finished \<lparr>slept = sleep fl, logged = ''Pod deleted: '' @ s, returned = None\<rparr>"

definition hand :: "flags \<Rightarrow> HandlerFunc" where
  "hand fl = \<lparr>AddFunc = hand_AddFunc fl, DeleteFunc = hand_DeleteFunc fl\<rparr>"

text \<open>
  The retriever lists and watches the pods of every namespace through the client it
  closes over.
\<close>

record 'cli Resource =
  Object :: object
  ListerWatcher :: 'cli

definition retr :: "'cli \<Rightarrow> 'cli Resource" where
  "retr k8scli = \<lparr>Object = PodObject \<lparr>Namespace = [], Name = []\<rparr>, ListerWatcher = k8scli\<rparr>"

subsection \<open>The controller configuration built by run\<close>

text \<open>
  \<open>controller.Config\<close> holds pointers and interface values for the handler and the
  retriever: \<open>None\<close> is \<open>nil\<close>.
\<close>

record ('h, 'r) Config =
  Handler :: "'h option"
  Retriever :: "'r option"
  ProcessingJobRetries :: go_int
  ResyncInterval :: duration
  ConcurrentWorkers :: go_int

subsection \<open>run\<close>

text \<open>
  The libraries \<open>run\<close> calls are inputs of the model: each field is what the call
  returns (\<open>Inl\<close> the error). \<open>ctrl.Run\<close> blocks while the controller runs, and the
  example never closes the stop channel, so it may never return.
\<close>

datatype returns = Blocks | Returns "go_error option"

record ('cfg, 'cli, 'ctrl) env =
  flag_Parse :: "go_error + parsed_args"
  rest_InClusterConfig :: "go_error + 'cfg"
  homedir_HomeDir :: string
  filepath_Join :: "string list \<Rightarrow> string"
  clientcmd_BuildConfigFromFlags :: "string \<Rightarrow> string \<Rightarrow> go_error + 'cfg"
  kubernetes_NewForConfig :: "'cfg \<Rightarrow> go_error + 'cli"
  controller_New :: "(HandlerFunc, 'cli Resource) Config \<Rightarrow> go_error + 'ctrl"
  ctrl_Run :: "'ctrl \<Rightarrow> returns"

text \<open>The calls that reach outside the process, in the order they are made.\<close>

datatype call =
    Call_Parse
  | Call_InClusterConfig
  | Call_BuildConfigFromFlags string string
  | Call_NewForConfig
  | Call_controller_New
  | Call_ctrl_Run

definition run_cfg :: "flags \<Rightarrow> 'cli \<Rightarrow> (HandlerFunc, 'cli Resource) Config" where
  "run_cfg fl k8scli =
     \<lparr>Handler = Some (hand fl),
      Retriever = Some (retr k8scli),
      ProcessingJobRetries = retries fl,
      ResyncInterval = intervalS fl * time_Second,
      ConcurrentWorkers = concurrentWorkers fl\<rparr>"

text \<open>The part of \<open>run\<close> after the Kubernetes configuration is known.\<close>

definition run_with_k8scfg ::
  "('cfg, 'cli, 'ctrl) env \<Rightarrow> flags \<Rightarrow> call list \<Rightarrow> 'cfg \<Rightarrow> call list \<times> returns" where
  "run_with_k8scfg E fl tr k8scfg =
     (case kubernetes_NewForConfig E k8scfg of
        Inl err \<Rightarrow>
          (tr @ [Call_NewForConfig],
           Returns (Some (Errorf ''error creating kubernetes client: '' err)))
      | Inr k8scli \<Rightarrow>
          (case controller_New E (run_cfg fl k8scli) of
             Inl err \<Rightarrow>
               (tr @ [Call_NewForConfig, Call_controller_New],
                Returns (Some (Errorf ''could not create controller: '' err)))
           | Inr ctrl \<Rightarrow>
               (tr @ [Call_NewForConfig, Call_controller_New, Call_ctrl_Run],
                (case ctrl_Run E ctrl of
                   Blocks \<Rightarrow> Blocks
                 | Returns (Some err) \<Rightarrow>
                     Returns (Some (Errorf ''error running controller: '' err))
                 | Returns None \<Rightarrow> Returns None))))"

text \<open>\<open>filepath.Join(homedir.HomeDir(), ".kube", "config")\<close>\<close>

definition kubehome :: "('cfg, 'cli, 'ctrl) env \<Rightarrow> string" where
  "kubehome E = filepath_Join E [homedir_HomeDir E, ''.kube'', ''config'']"

definition run :: "('cfg, 'cli, 'ctrl) env \<Rightarrow> call list \<times> returns" where
  "run E =
     (case initFlags (flag_Parse E) of
        Inl err \<Rightarrow> ([Call_Parse], Returns (Some (Errorf ''error parsing arguments: '' err)))
      | Inr fl \<Rightarrow>
          (case rest_InClusterConfig E of
             Inr k8scfg \<Rightarrow> run_with_k8scfg E fl [Call_Parse, Call_InClusterConfig] k8scfg
           | Inl _ \<Rightarrow>
               (case clientcmd_BuildConfigFromFlags E [] (kubehome E) of
                  Inl err \<Rightarrow>
                    ([Call_Parse, Call_InClusterConfig, Call_BuildConfigFromFlags [] (kubehome E)],
                     Returns (Some (Errorf ''error loading kubernetes configuration: '' err)))
                | Inr k8scfg \<Rightarrow>
                    run_with_k8scfg E fl
                      [Call_Parse, Call_InClusterConfig, Call_BuildConfigFromFlags [] (kubehome E)]
                      k8scfg)))"

section \<open>The controller package, as far as the example meets it\<close>

text \<open>
  The package \<open>controller\<close> is not among the sources: the example only calls
  \<open>controller.New\<close> and \<open>ctrl.Run\<close> and fills in \<open>controller.Config\<close>,
  \<open>controller.Resource\<close> and \<open>controller.HandlerFunc\<close>. What follows of it is modelled
  from the specification.
\<close>

subsection \<open>Construction\<close>

text \<open>
  Modelled from the spec: the ConstructionError of the error taxonomy, "invalid/missing
  configuration at creation time"; the two required elements the spec names are the
  Handler and the Retriever.
\<close>

datatype ConstructionError = MissingHandler | MissingRetriever

text \<open>
  Modelled from the spec: the ControllerRunState of the data model, "enum
  {Created, Running, Stopping, Stopped}".
\<close>

datatype ControllerRunState = Created | Running | Stopping | Stopped

text \<open>
  Modelled from the spec: the controller that \<open>create(config)\<close> returns, holding the
  configured capabilities and options and its run state.
\<close>

record ('h, 'r) Controller =
  ctrl_Handler :: 'h
  ctrl_Retriever :: 'r
  ctrl_Workers :: go_int
  ctrl_Retries :: go_int
  ctrl_Resync :: duration
  ctrl_State :: ControllerRunState

text \<open>
  Modelled from the spec: \<open>controller.New\<close>, the spec's
  \<open>create(config) -> Controller | constructionError\<close>. "A missing Handler or Retriever is
  a construction-time error", "zero workers requested is coerced to one", and a
  controller begins in the state Created.
\<close>

definition New :: "('h, 'r) Config \<Rightarrow> ConstructionError + ('h, 'r) Controller" where
  "New cfg =
     (case Handler cfg of
        None \<Rightarrow> Inl MissingHandler
      | Some h \<Rightarrow>
          (case Retriever cfg of
             None \<Rightarrow> Inl MissingRetriever
           | Some r \<Rightarrow>
               Inr \<lparr>ctrl_Handler = h,
                    ctrl_Retriever = r,
                    ctrl_Workers = (if ConcurrentWorkers cfg = 0 then 1 else ConcurrentWorkers cfg),
                    ctrl_Retries = ProcessingJobRetries cfg,
                    ctrl_Resync = ResyncInterval cfg,
                    ctrl_State = Created\<rparr>))"

subsection \<open>Events and the handler's invocation\<close>

text \<open>
  Modelled from the spec: the Event of the data model, "tagged union over
  {Added(key, payload), Updated(key, payload), Deleted(key)}". The key is a string
  (\<open>namespace/name\<close>) and the payload the \<open>runtime.Object\<close> the example's handler takes.
\<close>

datatype Event = Added string object | Updated string object | Deleted string

text \<open>Modelled from the spec: the ResourceKey an event is about.\<close>

fun event_key :: "Event \<Rightarrow> string" where
  "event_key (Added k _) = k"
| "event_key (Updated k _) = k"
| "event_key (Deleted k) = k"

text \<open>
  Modelled from the spec: the \<open>payload_or_nil\<close> the handler is given for an event;
  "deletion events carry only the key because the object no longer exists".
\<close>

fun payload_or_nil :: "Event \<Rightarrow> object option" where
  "payload_or_nil (Added _ p) = Some p"
| "payload_or_nil (Updated _ p) = Some p"
| "payload_or_nil (Deleted _) = None"

text \<open>
  Modelled from the spec: the Handler capability \<open>handle(context, key, payload_or_nil)\<close>
  over the \<open>HandlerFunc\<close> of the example, whose \<open>DeleteFunc\<close> takes the key alone and
  whose \<open>AddFunc\<close> takes the object. The context is not used by the example's functions.
\<close>

definition handle :: "HandlerFunc \<Rightarrow> string \<Rightarrow> object option \<Rightarrow> handler_call" where
  "handle hf k payload =
     (case payload of None \<Rightarrow> DeleteFunc hf k | Some obj \<Rightarrow> AddFunc hf obj)"

text \<open>
  Modelled from the spec: the worker's invocation of the handler for an event, with the
  event's key and its payload or nil.
\<close>

definition invoke :: "HandlerFunc \<Rightarrow> Event \<Rightarrow> handler_call" where
  "invoke hf ev = handle hf (event_key ev) (payload_or_nil ev)"

section \<open>A sample environment\<close>

text \<open>
  Concrete inputs on which the theorems below are exercised. \<open>Join\<close> stands for
  \<open>filepath.Join\<close> on path elements that are already clean: it puts a separator between
  them.
\<close>

fun Join :: "string list \<Rightarrow> string" where
  "Join [] = []"
| "Join [x] = x"
| "Join (x # y # ys) = x @ ''/'' @ Join (y # ys)"

definition no_args :: parsed_args where
  "no_args =
     \<lparr>arg_concurrency = None, arg_sleep_ms = None, arg_interval_s = None, arg_retries = None\<rparr>"

definition sample_env ::
  "go_error + nat \<Rightarrow> go_error + nat \<Rightarrow> go_error + unit \<Rightarrow> (nat, nat, unit) env" where
  "sample_env incluster fallback new =
     \<lparr>flag_Parse = Inr no_args,
      rest_InClusterConfig = incluster,
      homedir_HomeDir = ''/home/u'',
      filepath_Join = Join,
      clientcmd_BuildConfigFromFlags =
        (\<lambda>master path.
           if path = ''/home/u/.kube/config'' then fallback else Inl (Err ''no such file'')),
      kubernetes_NewForConfig = (\<lambda>c. Inr c),
      controller_New = (\<lambda>cfg. new),
      ctrl_Run = (\<lambda>c. Blocks)\<rparr>"

section \<open>Properties of initFlags\<close>

lemma initFlags_Inl: "initFlags (Inl err) = Inl err"
  by (simp add: initFlags_def)

lemma initFlags_Inr:
  "initFlags (Inr a) =
     Inr \<lparr>concurrentWorkers =
            (if IntVar 3 (arg_concurrency a) <s 1 then 1 else IntVar 3 (arg_concurrency a)),
          sleepMS = (if IntVar 25 (arg_sleep_ms a) <s 1 then 25 else IntVar 25 (arg_sleep_ms a)),
          intervalS =
            (if IntVar 300 (arg_interval_s a) <s 1 then 300 else IntVar 300 (arg_interval_s a)),
          retries = (if IntVar 3 (arg_retries a) <s 0 then 0 else IntVar 3 (arg_retries a))\<rparr>"
  by (simp add: initFlags_def Let_def)

text \<open>
  C9: whenever \<open>initFlags\<close> returns nil, the parse had succeeded and the four variables
  hold \<open>concurrentWorkers \<ge> 1\<close>, \<open>sleepMS \<ge> 1\<close>, \<open>intervalS \<ge> 1\<close> and \<open>retries \<ge> 0\<close>: a
  value below the bound has been replaced by the fallback 1, 25, 300 or 0, any other value
  is kept, and no value of a flag makes \<open>initFlags\<close> return an error.
\<close>

theorem initFlags_accepted_in_range:
  assumes "initFlags parse = Inr fl"
  shows "1 \<le> sint (concurrentWorkers fl) \<and> 1 \<le> sint (sleepMS fl) \<and>
         1 \<le> sint (intervalS fl) \<and> 0 \<le> sint (retries fl) \<and>
         (\<exists>a. parse = Inr a \<and>
            concurrentWorkers fl =
              (if sint (IntVar 3 (arg_concurrency a)) < 1 then 1
               else IntVar 3 (arg_concurrency a)) \<and>
            sleepMS fl =
              (if sint (IntVar 25 (arg_sleep_ms a)) < 1 then 25 else IntVar 25 (arg_sleep_ms a)) \<and>
            intervalS fl =
              (if sint (IntVar 300 (arg_interval_s a)) < 1 then 300
               else IntVar 300 (arg_interval_s a)) \<and>
            retries fl =
              (if sint (IntVar 3 (arg_retries a)) < 0 then 0 else IntVar 3 (arg_retries a))) \<and>
         (\<forall>a. \<exists>fl'. initFlags (Inr a) = Inr fl')"
proof (cases parse)
  case (Inl err)
  with assms show ?thesis by (simp add: initFlags_Inl)
next
  case (Inr a)
  with assms have fl: "fl = projr (initFlags (Inr a))" by simp
  have tot: "\<forall>a. \<exists>fl'. initFlags (Inr a) = Inr fl'" by (simp add: initFlags_Inr)
  show ?thesis
    unfolding fl using Inr tot by (simp add: initFlags_Inr word_sless_alt)
qed

theorem initFlags_accepted_in_range_witness:
  "initFlags (Inr \<lparr>arg_concurrency = Some 0, arg_sleep_ms = Some (- 4),
                   arg_interval_s = None, arg_retries = Some (- 1)\<rparr>)
     = Inr \<lparr>concurrentWorkers = 1, sleepMS = 25, intervalS = 300, retries = 0\<rparr> \<and>
   1 \<le> sint (concurrentWorkers
              \<lparr>concurrentWorkers = 1, sleepMS = 25, intervalS = 300, retries = 0\<rparr>) \<and>
   1 \<le> sint (sleepMS \<lparr>concurrentWorkers = 1, sleepMS = 25, intervalS = 300, retries = 0\<rparr>) \<and>
   1 \<le> sint (intervalS \<lparr>concurrentWorkers = 1, sleepMS = 25, intervalS = 300, retries = 0\<rparr>) \<and>
   0 \<le> sint (retries \<lparr>concurrentWorkers = 1, sleepMS = 25, intervalS = 300, retries = 0\<rparr>)"
proof -
  have h: "initFlags (Inr \<lparr>arg_concurrency = Some 0, arg_sleep_ms = Some (- 4),
                   arg_interval_s = None, arg_retries = Some (- 1)\<rparr>)
     = Inr \<lparr>concurrentWorkers = 1, sleepMS = 25, intervalS = 300, retries = 0\<rparr>"
    by (simp add: initFlags_def IntVar_def word_sless_alt)
  from initFlags_accepted_in_range [OF h] h show ?thesis by blast
qed

section \<open>Properties of run\<close>

subsection \<open>The part after the configuration\<close>

lemma run_with_k8scfg_extends:
  "\<exists>rest. fst (run_with_k8scfg E fl tr c) = tr @ rest"
  by (simp add: run_with_k8scfg_def split: sum.splits returns.splits option.splits)

lemma run_with_k8scfg_BuildConfig:
  "(Call_BuildConfigFromFlags m p \<in> set (fst (run_with_k8scfg E fl tr c))) =
     (Call_BuildConfigFromFlags m p \<in> set tr)"
  by (simp add: run_with_k8scfg_def split: sum.splits returns.splits option.splits)

lemma run_with_k8scfg_not_config_error:
  "snd (run_with_k8scfg E fl tr c) \<noteq>
     Returns (Some (Errorf ''error loading kubernetes configuration: '' err))"
  by (simp add: run_with_k8scfg_def split: sum.splits returns.splits option.splits)

lemma run_with_k8scfg_cong:
  "run_with_k8scfg (E\<lparr>rest_InClusterConfig := x\<rparr>) fl tr c = run_with_k8scfg E fl tr c"
  by (simp add: run_with_k8scfg_def split: sum.splits returns.splits option.splits)

lemma snd_run_with_k8scfg:
  "snd (run_with_k8scfg E fl tr c) = snd (run_with_k8scfg E fl tr' c)"
  by (simp add: run_with_k8scfg_def split: sum.splits returns.splits option.splits)

lemma run_with_k8scfg_New_error:
  "(snd (run_with_k8scfg E fl tr k8scfg) =
      Returns (Some (Errorf ''could not create controller: '' err))) =
   (\<exists>k8scli. kubernetes_NewForConfig E k8scfg = Inr k8scli \<and>
      controller_New E (run_cfg fl k8scli) = Inl err)"
  by (auto simp: run_with_k8scfg_def split: sum.splits returns.splits option.splits)

lemma run_with_k8scfg_Run_called:
  "(Call_ctrl_Run \<in> set (fst (run_with_k8scfg E fl tr k8scfg))) =
   (Call_ctrl_Run \<in> set tr \<or>
    (\<exists>k8scli ctrl. kubernetes_NewForConfig E k8scfg = Inr k8scli \<and>
      controller_New E (run_cfg fl k8scli) = Inr ctrl))"
  by (auto simp: run_with_k8scfg_def split: sum.splits returns.splits option.splits)

subsection \<open>The Kubernetes configuration\<close>

lemma run_config_error_iff:
  "(snd (run E) = Returns (Some (Errorf ''error loading kubernetes configuration: '' err))) =
     ((\<exists>fl. initFlags (flag_Parse E) = Inr fl) \<and>
      (\<exists>e. rest_InClusterConfig E = Inl e) \<and>
      clientcmd_BuildConfigFromFlags E [] (kubehome E) = Inl err)"
  by (auto simp: run_def run_with_k8scfg_not_config_error split: sum.splits)

lemma run_fallback_as_incluster:
  assumes "rest_InClusterConfig E = Inl e"
    and "clientcmd_BuildConfigFromFlags E [] (kubehome E) = Inr c"
  shows "snd (run E) = snd (run (E\<lparr>rest_InClusterConfig := Inr c\<rparr>))"
proof (cases "initFlags (flag_Parse E)")
  case (Inl a)
  then show ?thesis by (simp add: run_def)
next
  case (Inr fl)
  with assms show ?thesis
    using snd_run_with_k8scfg [of E fl
        "[Call_Parse, Call_InClusterConfig, Call_BuildConfigFromFlags [] (kubehome E)]" c
        "[Call_Parse, Call_InClusterConfig]"]
    by (simp add: run_def run_with_k8scfg_cong)
qed

lemma run_fallback_follows:
  assumes "initFlags (flag_Parse E) = Inr fl" and "rest_InClusterConfig E = Inl e"
  shows "\<exists>rest. fst (run E) =
      Call_Parse # Call_InClusterConfig # Call_BuildConfigFromFlags [] (kubehome E) # rest"
proof (cases "clientcmd_BuildConfigFromFlags E [] (kubehome E)")
  case (Inl err)
  with assms show ?thesis by (simp add: run_def)
next
  case (Inr c)
  with assms show ?thesis
    using run_with_k8scfg_extends [of E fl "[Call_Parse, Call_InClusterConfig,
      Call_BuildConfigFromFlags [] (kubehome E)]" c] by (simp add: run_def)
qed

lemma run_fallback_called_iff:
  "(Call_BuildConfigFromFlags m p \<in> set (fst (run E))) =
     ((\<exists>fl. initFlags (flag_Parse E) = Inr fl) \<and> (\<exists>e. rest_InClusterConfig E = Inl e) \<and>
      m = [] \<and> p = kubehome E)"
  by (cases "initFlags (flag_Parse E)"; cases "rest_InClusterConfig E";
      cases "clientcmd_BuildConfigFromFlags E [] (kubehome E)")
     (auto simp: run_def run_with_k8scfg_BuildConfig)

subsection \<open>The controller's construction\<close>

lemma run_New_error_iff:
  "(snd (run E) = Returns (Some (Errorf ''could not create controller: '' err))) =
   (\<exists>fl k8scfg k8scli. initFlags (flag_Parse E) = Inr fl \<and>
      (rest_InClusterConfig E = Inr k8scfg \<or>
       (\<exists>e. rest_InClusterConfig E = Inl e) \<and>
       clientcmd_BuildConfigFromFlags E [] (kubehome E) = Inr k8scfg) \<and>
      kubernetes_NewForConfig E k8scfg = Inr k8scli \<and>
      controller_New E (run_cfg fl k8scli) = Inl err)"
  by (cases "initFlags (flag_Parse E)"; cases "rest_InClusterConfig E";
      cases "clientcmd_BuildConfigFromFlags E [] (kubehome E)")
     (simp_all add: run_def run_with_k8scfg_New_error)

lemma run_Run_called_iff:
  "(Call_ctrl_Run \<in> set (fst (run E))) =
   (\<exists>fl k8scfg k8scli ctrl. initFlags (flag_Parse E) = Inr fl \<and>
      (rest_InClusterConfig E = Inr k8scfg \<or>
       (\<exists>e. rest_InClusterConfig E = Inl e) \<and>
       clientcmd_BuildConfigFromFlags E [] (kubehome E) = Inr k8scfg) \<and>
      kubernetes_NewForConfig E k8scfg = Inr k8scli \<and>
      controller_New E (run_cfg fl k8scli) = Inr ctrl)"
  by (cases "initFlags (flag_Parse E)"; cases "rest_InClusterConfig E";
      cases "clientcmd_BuildConfigFromFlags E [] (kubehome E)")
     (simp_all add: run_def run_with_k8scfg_Run_called)

lemma initFlags_zero_workers:
  "\<exists>fl. initFlags (Inr (a\<lparr>arg_concurrency := Some 0\<rparr>)) = Inr fl \<and> concurrentWorkers fl = 1"
  by (simp add: initFlags_def IntVar_def Let_def word_sless_alt)

subsection \<open>run in the sample environment\<close>

lemma kubehome_sample: "kubehome (sample_env a b c) = ''/home/u/.kube/config''"
  by (simp add: kubehome_def sample_env_def)

lemma flags_sample:
  "initFlags (flag_Parse (sample_env a b c)) =
     Inr \<lparr>concurrentWorkers = 3, sleepMS = 25, intervalS = 300, retries = 3\<rparr>"
  by (simp add: sample_env_def no_args_def initFlags_def IntVar_def word_sless_alt)

lemma sample_sel:
  "rest_InClusterConfig (sample_env a b c) = a"
  "clientcmd_BuildConfigFromFlags (sample_env a b c) [] ''/home/u/.kube/config'' = b"
  "kubernetes_NewForConfig (sample_env a b c) x = Inr x"
  "controller_New (sample_env a b c) cfg = c"
  "ctrl_Run (sample_env a b c) y = Blocks"
  "(sample_env a b c)\<lparr>rest_InClusterConfig := a'\<rparr> = sample_env a' b c"
  by (simp_all add: sample_env_def)

lemma run_sample_both_fail:
  "run (sample_env (Inl (Err ''not in a cluster'')) (Inl (Err ''no kubeconfig'')) (Inr ())) =
     ([Call_Parse, Call_InClusterConfig, Call_BuildConfigFromFlags [] ''/home/u/.kube/config''],
      Returns (Some (Errorf ''error loading kubernetes configuration: ''
                       (Err ''no kubeconfig''))))"
  by (simp add: run_def flags_sample kubehome_sample sample_sel)

lemma run_sample_fallback:
  "run (sample_env (Inl (Err ''not in a cluster'')) (Inr 7) (Inr ())) =
     ([Call_Parse, Call_InClusterConfig, Call_BuildConfigFromFlags [] ''/home/u/.kube/config'',
       Call_NewForConfig, Call_controller_New, Call_ctrl_Run], Blocks)"
  by (simp add: run_def flags_sample kubehome_sample run_with_k8scfg_def sample_sel)

lemma run_sample_New_fails:
  "run (sample_env (Inr 7) (Inr 7) (Inl (Err ''a handler is required''))) =
     ([Call_Parse, Call_InClusterConfig, Call_NewForConfig, Call_controller_New],
      Returns (Some (Errorf ''could not create controller: '' (Err ''a handler is required''))))"
  by (simp add: run_def flags_sample run_with_k8scfg_def sample_sel)

subsection \<open>The claims about run\<close>

text \<open>
  C10: \<open>run\<close> returns the error "error loading kubernetes configuration" exactly when
  the flags were accepted, \<open>rest.InClusterConfig\<close> failed and
  \<open>clientcmd.BuildConfigFromFlags\<close> on \<open>$HOME/.kube/config\<close> failed too, and the error it
  wraps is the fallback's. When only the in-cluster configuration fails, \<open>run\<close> ends as
  it would have with the fallback's configuration found in the cluster: the in-cluster
  error is not returned. The fallback is called only after the in-cluster configuration
  failed, right after it, and on no other path.
\<close>

theorem run_kubernetes_configuration:
  "((snd (run E) = Returns (Some (Errorf ''error loading kubernetes configuration: '' err))) =
      ((\<exists>fl. initFlags (flag_Parse E) = Inr fl) \<and>
       (\<exists>e. rest_InClusterConfig E = Inl e) \<and>
       clientcmd_BuildConfigFromFlags E [] (kubehome E) = Inl err)) \<and>
   (rest_InClusterConfig E = Inl e \<and> clientcmd_BuildConfigFromFlags E [] (kubehome E) = Inr c \<longrightarrow>
      snd (run E) = snd (run (E\<lparr>rest_InClusterConfig := Inr c\<rparr>))) \<and>
   ((Call_BuildConfigFromFlags m p \<in> set (fst (run E))) =
      ((\<exists>fl. initFlags (flag_Parse E) = Inr fl) \<and> (\<exists>e. rest_InClusterConfig E = Inl e) \<and>
       m = [] \<and> p = kubehome E)) \<and>
   ((\<exists>fl. initFlags (flag_Parse E) = Inr fl) \<and> (\<exists>e. rest_InClusterConfig E = Inl e) \<longrightarrow>
      (\<exists>rest. fst (run E) =
         Call_Parse # Call_InClusterConfig # Call_BuildConfigFromFlags [] (kubehome E) # rest))"
proof (intro conjI impI)
  show "(snd (run E) = Returns (Some (Errorf ''error loading kubernetes configuration: '' err))) =
      ((\<exists>fl. initFlags (flag_Parse E) = Inr fl) \<and>
       (\<exists>e. rest_InClusterConfig E = Inl e) \<and>
       clientcmd_BuildConfigFromFlags E [] (kubehome E) = Inl err)"
    by (rule run_config_error_iff)
next
  assume "rest_InClusterConfig E = Inl e \<and>
    clientcmd_BuildConfigFromFlags E [] (kubehome E) = Inr c"
  then show "snd (run E) = snd (run (E\<lparr>rest_InClusterConfig := Inr c\<rparr>))"
    using run_fallback_as_incluster [of E e c] by simp
next
  show "(Call_BuildConfigFromFlags m p \<in> set (fst (run E))) =
      ((\<exists>fl. initFlags (flag_Parse E) = Inr fl) \<and> (\<exists>e. rest_InClusterConfig E = Inl e) \<and>
       m = [] \<and> p = kubehome E)"
    by (rule run_fallback_called_iff)
next
  assume "(\<exists>fl. initFlags (flag_Parse E) = Inr fl) \<and> (\<exists>e. rest_InClusterConfig E = Inl e)"
  then obtain fl e' where "initFlags (flag_Parse E) = Inr fl" "rest_InClusterConfig E = Inl e'"
    by blast
  then show "\<exists>rest. fst (run E) =
         Call_Parse # Call_InClusterConfig # Call_BuildConfigFromFlags [] (kubehome E) # rest"
    by (rule run_fallback_follows)
qed

theorem run_kubernetes_configuration_witness:
  "run (sample_env (Inl (Err ''not in a cluster'')) (Inl (Err ''no kubeconfig'')) (Inr ())) =
     ([Call_Parse, Call_InClusterConfig, Call_BuildConfigFromFlags [] ''/home/u/.kube/config''],
      Returns (Some (Errorf ''error loading kubernetes configuration: ''
                       (Err ''no kubeconfig'')))) \<and>
   run (sample_env (Inl (Err ''not in a cluster'')) (Inr 7) (Inr ())) =
     ([Call_Parse, Call_InClusterConfig, Call_BuildConfigFromFlags [] ''/home/u/.kube/config'',
       Call_NewForConfig, Call_controller_New, Call_ctrl_Run], Blocks) \<and>
   snd (run (sample_env (Inl (Err ''not in a cluster'')) (Inr 7) (Inr ()))) =
     snd (run (sample_env (Inr 7) (Inr 7) (Inr ())))"
proof -
  let ?E1 = "sample_env (Inl (Err ''not in a cluster'')) (Inl (Err ''no kubeconfig'')) (Inr ())"
  let ?E2 = "sample_env (Inl (Err ''not in a cluster'')) (Inr 7) (Inr ())"
  have r1: "rest_InClusterConfig ?E1 = Inl (Err ''not in a cluster'')"
    and r2: "rest_InClusterConfig ?E2 = Inl (Err ''not in a cluster'')"
    and b1: "clientcmd_BuildConfigFromFlags ?E1 [] (kubehome ?E1) = Inl (Err ''no kubeconfig'')"
    and b2: "clientcmd_BuildConfigFromFlags ?E2 [] (kubehome ?E2) = Inr 7"
    and u: "?E2\<lparr>rest_InClusterConfig := Inr 7\<rparr> = sample_env (Inr 7) (Inr 7) (Inr ())"
    by (simp_all only: sample_sel kubehome_sample)
  have f1: "\<exists>fl. initFlags (flag_Parse ?E1) = Inr fl"
    by (simp only: flags_sample) blast
  have t1: "snd (run ?E1) =
      Returns (Some (Errorf ''error loading kubernetes configuration: '' (Err ''no kubeconfig'')))"
    using run_kubernetes_configuration [of ?E1 "Err ''no kubeconfig''"] r1 b1 f1
    by blast
  have o1: "\<exists>rest. fst (run ?E1) =
      Call_Parse # Call_InClusterConfig # Call_BuildConfigFromFlags [] (kubehome ?E1) # rest"
    using run_kubernetes_configuration [of ?E1] r1 f1
    by blast
  have t2: "snd (run ?E2) = snd (run (?E2\<lparr>rest_InClusterConfig := Inr 7\<rparr>))"
    using run_kubernetes_configuration [of ?E2 _ "Err ''not in a cluster''" 7] r2 b2 by blast
  from t1 o1 t2 run_sample_both_fail run_sample_fallback u show ?thesis by simp
qed

section \<open>Construction and the handler's invocation\<close>

lemma New_error_iff:
  "(\<exists>e. New cfg = Inl e) = (Handler cfg = None \<or> Retriever cfg = None)"
  by (auto simp: New_def split: option.splits)

text \<open>
  C6: construction fails fast and nothing is left running. \<open>New\<close> returns a construction
  error exactly when the Handler or the Retriever is missing; a request for zero workers
  is no error and gives a controller with one worker, in the state Created. In the
  example, the flag value 0 for the number of workers is accepted by \<open>initFlags\<close> and
  replaced by 1, and \<open>run\<close> returns the error "could not create controller" exactly when
  \<open>controller.New\<close> returned an error, which it wraps, and then \<open>ctrl.Run\<close> is never
  called.
\<close>

theorem construction_fails_fast:
  "((\<exists>e. New cfg = Inl e) = (Handler cfg = None \<or> Retriever cfg = None)) \<and>
   (Handler cfg = None \<longrightarrow> New cfg = Inl MissingHandler) \<and>
   (Handler cfg = Some h \<and> Retriever cfg = None \<longrightarrow> New cfg = Inl MissingRetriever) \<and>
   (Handler cfg = Some h \<and> Retriever cfg = Some r \<and> ConcurrentWorkers cfg = 0 \<longrightarrow>
      (\<exists>c. New cfg = Inr c \<and> ctrl_Workers c = 1 \<and> ctrl_State c = Created)) \<and>
   (\<exists>fl. initFlags (Inr (a\<lparr>arg_concurrency := Some 0\<rparr>)) = Inr fl \<and> concurrentWorkers fl = 1) \<and>
   ((snd (run E) = Returns (Some (Errorf ''could not create controller: '' err))) =
      (\<exists>fl k8scfg k8scli. initFlags (flag_Parse E) = Inr fl \<and>
         (rest_InClusterConfig E = Inr k8scfg \<or>
          (\<exists>e. rest_InClusterConfig E = Inl e) \<and>
          clientcmd_BuildConfigFromFlags E [] (kubehome E) = Inr k8scfg) \<and>
         kubernetes_NewForConfig E k8scfg = Inr k8scli \<and>
         controller_New E (run_cfg fl k8scli) = Inl err)) \<and>
   (snd (run E) = Returns (Some (Errorf ''could not create controller: '' err)) \<longrightarrow>
      Call_ctrl_Run \<notin> set (fst (run E)))"
proof (intro conjI impI)
  show "(\<exists>e. New cfg = Inl e) = (Handler cfg = None \<or> Retriever cfg = None)"
    by (rule New_error_iff)
next
  assume "Handler cfg = None"
  then show "New cfg = Inl MissingHandler" by (simp add: New_def)
next
  assume "Handler cfg = Some h \<and> Retriever cfg = None"
  then show "New cfg = Inl MissingRetriever" by (simp add: New_def)
next
  assume "Handler cfg = Some h \<and> Retriever cfg = Some r \<and> ConcurrentWorkers cfg = 0"
  then show "\<exists>c. New cfg = Inr c \<and> ctrl_Workers c = 1 \<and> ctrl_State c = Created"
    by (simp add: New_def)
next
  show "\<exists>fl. initFlags (Inr (a\<lparr>arg_concurrency := Some 0\<rparr>)) = Inr fl \<and> concurrentWorkers fl = 1"
    by (rule initFlags_zero_workers)
next
  show "(snd (run E) = Returns (Some (Errorf ''could not create controller: '' err))) =
      (\<exists>fl k8scfg k8scli. initFlags (flag_Parse E) = Inr fl \<and>
         (rest_InClusterConfig E = Inr k8scfg \<or>
          (\<exists>e. rest_InClusterConfig E = Inl e) \<and>
          clientcmd_BuildConfigFromFlags E [] (kubehome E) = Inr k8scfg) \<and>
         kubernetes_NewForConfig E k8scfg = Inr k8scli \<and>
         controller_New E (run_cfg fl k8scli) = Inl err)"
    by (rule run_New_error_iff)
next
  assume r: "snd (run E) = Returns (Some (Errorf ''could not create controller: '' err))"
  show "Call_ctrl_Run \<notin> set (fst (run E))"
  proof
    assume "Call_ctrl_Run \<in> set (fst (run E))"
    then obtain fl k8scfg k8scli ctrl where
      1: "initFlags (flag_Parse E) = Inr fl"
        "rest_InClusterConfig E = Inr k8scfg \<or>
          (\<exists>e. rest_InClusterConfig E = Inl e) \<and>
          clientcmd_BuildConfigFromFlags E [] (kubehome E) = Inr k8scfg"
        "kubernetes_NewForConfig E k8scfg = Inr k8scli"
        "controller_New E (run_cfg fl k8scli) = Inr ctrl"
      unfolding run_Run_called_iff by blast
    from r obtain fl' k8scfg' k8scli' where
      2: "initFlags (flag_Parse E) = Inr fl'"
        "rest_InClusterConfig E = Inr k8scfg' \<or>
          (\<exists>e. rest_InClusterConfig E = Inl e) \<and>
          clientcmd_BuildConfigFromFlags E [] (kubehome E) = Inr k8scfg'"
        "kubernetes_NewForConfig E k8scfg' = Inr k8scli'"
        "controller_New E (run_cfg fl' k8scli') = Inl err"
      unfolding run_New_error_iff by blast
    from 1 2 have "fl' = fl" "k8scfg' = k8scfg" by auto
    with 1 2 show False by simp
  qed
qed

theorem construction_fails_fast_witness:
  "New \<lparr>Handler = None :: unit option, Retriever = Some (), ProcessingJobRetries = 3,
        ResyncInterval = 0, ConcurrentWorkers = 2\<rparr> = Inl MissingHandler \<and>
   New \<lparr>Handler = Some (), Retriever = None :: unit option, ProcessingJobRetries = 3,
        ResyncInterval = 0, ConcurrentWorkers = 2\<rparr> = Inl MissingRetriever \<and>
   (\<exists>c. New \<lparr>Handler = Some (), Retriever = Some (), ProcessingJobRetries = 3,
              ResyncInterval = 0, ConcurrentWorkers = 0\<rparr> = Inr c \<and>
        ctrl_Workers c = 1 \<and> ctrl_State c = Created) \<and>
   snd (run (sample_env (Inr 7) (Inr 7) (Inl (Err ''a handler is required'')))) =
     Returns (Some (Errorf ''could not create controller: '' (Err ''a handler is required''))) \<and>
   Call_ctrl_Run \<notin> set (fst (run (sample_env (Inr 7) (Inr 7) (Inl (Err ''a handler is required'')))))"
proof -
  let ?A = "\<lparr>Handler = None :: unit option, Retriever = Some (), ProcessingJobRetries = 3,
        ResyncInterval = 0, ConcurrentWorkers = 2\<rparr>"
  let ?B = "\<lparr>Handler = Some (), Retriever = None :: unit option, ProcessingJobRetries = 3,
        ResyncInterval = 0, ConcurrentWorkers = 2\<rparr>"
  let ?C = "\<lparr>Handler = Some (), Retriever = Some (), ProcessingJobRetries = 3,
        ResyncInterval = 0, ConcurrentWorkers = 0\<rparr>"
  let ?E = "sample_env (Inr 7) (Inr 7) (Inl (Err ''a handler is required''))"
  note c2 = conjunct2
  have a: "New ?A = Inl MissingHandler"
    using construction_fails_fast [where cfg = ?A, THEN c2, THEN conjunct1] by simp
  have b: "New ?B = Inl MissingRetriever"
    using construction_fails_fast [where cfg = ?B and h = "()", THEN c2, THEN c2, THEN conjunct1]
    by simp
  have c: "\<exists>c. New ?C = Inr c \<and> ctrl_Workers c = 1 \<and> ctrl_State c = Created"
    using construction_fails_fast [where cfg = ?C and h = "()" and r = "()",
        THEN c2, THEN c2, THEN c2, THEN conjunct1]
    by simp
  have e: "snd (run ?E) =
      Returns (Some (Errorf ''could not create controller: '' (Err ''a handler is required'')))"
    by (simp add: run_sample_New_fails)
  have n: "Call_ctrl_Run \<notin> set (fst (run ?E))"
    using construction_fails_fast [where E = ?E and err = "Err ''a handler is required''",
        THEN c2, THEN c2, THEN c2, THEN c2, THEN c2, THEN c2] e
    by blast
  from a b c e n show ?thesis by blast
qed

text \<open>
  C7: a Deleted event carries the key and no payload, and it is the only event without
  one; Added and Updated events carry the observed object. The handler is invoked for a
  deletion with the key and the nil payload, which reaches the \<open>DeleteFunc\<close> with the key
  alone, and for an addition or update with the object.
\<close>

theorem deleted_event_has_no_payload:
  "((payload_or_nil ev = None) = (\<exists>k. ev = Deleted k)) \<and>
   payload_or_nil (Deleted k) = None \<and> event_key (Deleted k) = k \<and>
   payload_or_nil (Added k obj) = Some obj \<and> payload_or_nil (Updated k obj) = Some obj \<and>
   invoke hf (Deleted k) = handle hf k None \<and>
   invoke hf (Deleted k) = DeleteFunc hf k \<and>
   invoke hf (Added k obj) = handle hf k (Some obj) \<and>
   invoke hf (Updated k obj) = handle hf k (Some obj) \<and>
   invoke hf (Added k obj) = AddFunc hf obj \<and>
   invoke hf (Updated k obj) = AddFunc hf obj \<and>
   invoke (hand fl) (Deleted k) =
     Finished \<lparr>slept = sleepMS fl * time_Millisecond, logged = ''Pod deleted: '' @ k,
               returned = None\<rparr>"
  by (cases ev) (simp_all add: invoke_def handle_def hand_def hand_DeleteFunc_def sleep_def)

end
